theory Spec2Isabelle
  imports Main
begin

section \<open>The chess data the request handler reads\<close>

text \<open>
  \<^verbatim>\<open>main.py\<close> is one request handler, \<^verbatim>\<open>analyze_and_move\<close>, and three helpers
  (\<^verbatim>\<open>game_phase\<close>, \<^verbatim>\<open>move_quality\<close>, \<^verbatim>\<open>explain_move\<close>). It works on the objects of the
  python-chess library: a board, its pieces and moves. The board is modelled by the
  data of a position: what stands on each of the 64 squares (a1 is square 0, h8 is
  square 63), whose turn it is, and the castling, en-passant and move-counter fields,
  of which the handler reads the first two. The rule-dependent operations of the
  library (FEN and UCI decoding, legality, SAN, applying a move, FEN encoding) are
  parameters of the model, collected in the record \<open>rules\<close> below.
\<close>

datatype color = White | Black

datatype piece_type = Pawn | Knight | Bishop | Rook | Queen | King

record piece =
  piece_type :: piece_type
  color :: color

type_synonym square = nat

record board =
  squares :: "piece option list"
  turn :: color
  castling :: string
  ep_square :: "square option"
  halfmove_clock :: nat
  fullmove_number :: nat

record move =
  from_square :: square
  to_square :: square
  promotion :: "piece_type option"
  move_drop :: "piece_type option"

text \<open>\<^verbatim>\<open>board.piece_at(square)\<close>: the piece on a square, or \<^verbatim>\<open>None\<close>.\<close>

definition piece_at :: "board \<Rightarrow> square \<Rightarrow> piece option" where
  "piece_at b sq = (if sq < length (squares b) \<and> sq < 64 then squares b ! sq else None)"

text \<open>\<^verbatim>\<open>board.pieces(piece_type, color)\<close>: the squares holding such a piece.\<close>

definition pieces :: "board \<Rightarrow> piece_type \<Rightarrow> color \<Rightarrow> square list" where
  "pieces b p c =
     filter (\<lambda>sq. piece_at b sq = Some \<lparr>piece_type = p, color = c\<rparr>) [0..<64]"

text \<open>
  The truth value of a move (\<^verbatim>\<open>if result.move:\<close>): the library's null move, all of
  whose fields are zero or absent, is false; every other move is true. The field
  \<^verbatim>\<open>drop\<close> of a move is \<open>move_drop\<close> here.
\<close>

definition move_bool :: "move \<Rightarrow> bool" where
  "move_bool m \<longleftrightarrow>
     from_square m \<noteq> 0 \<or> to_square m \<noteq> 0 \<or> promotion m \<noteq> None \<or> move_drop m \<noteq> None"

section \<open>Phase and quality\<close>

text \<open>
  \<^verbatim>\<open>
  def game_phase(board):
      piece_count = sum(
          len(board.pieces(p, chess.WHITE)) + len(board.pieces(p, chess.BLACK))
          for p in (chess.QUEEN, chess.ROOK, chess.BISHOP, chess.KNIGHT))
      if piece_count > 10: return "opening"
      if piece_count > 4:  return "middlegame"
      return "endgame"
  \<close>
\<close>

definition piece_count :: "board \<Rightarrow> nat" where
  "piece_count b =
     sum_list (map (\<lambda>p. length (pieces b p White) + length (pieces b p Black))
                   [Queen, Rook, Bishop, Knight])"

definition game_phase :: "board \<Rightarrow> string" where
  "game_phase b =
     (if piece_count b > 10 then ''opening''
      else if piece_count b > 4 then ''middlegame''
      else ''endgame'')"

text \<open>
  \<^verbatim>\<open>
  def move_quality(eval_change):
      if eval_change <= -300: return "blunder"
      if eval_change <= -100: return "mistake"
      if eval_change <= -30:  return "inaccuracy"
      if eval_change >= 80:   return "strong"
      return "neutral"
  \<close>
  Python integers are unbounded, so the argument is an \<open>int\<close>.
\<close>

definition move_quality :: "int \<Rightarrow> string" where
  "move_quality eval_change =
     (if eval_change \<le> -300 then ''blunder''
      else if eval_change \<le> -100 then ''mistake''
      else if eval_change \<le> -30 then ''inaccuracy''
      else if eval_change \<ge> 80 then ''strong''
      else ''neutral'')"

text \<open>
  The count the specification speaks of: the squares that hold a queen, rook, bishop or
  knight of either colour.
\<close>

definition is_minor_or_major :: "piece option \<Rightarrow> bool" where
  "is_minor_or_major x =
     (case x of None \<Rightarrow> False
      | Some p \<Rightarrow> piece_type p = Queen \<or> piece_type p = Rook
                  \<or> piece_type p = Bishop \<or> piece_type p = Knight)"

definition material_count :: "board \<Rightarrow> nat" where
  "material_count b = length (filter (\<lambda>sq. is_minor_or_major (piece_at b sq)) [0..<64])"

section \<open>Piece names\<close>

text \<open>
  The library's \<^verbatim>\<open>piece.symbol()\<close>: a lower-case letter for the piece type, in upper
  case for a white piece. \<^verbatim>\<open>str.upper()\<close> is modelled on the ASCII letters, the only
  characters a symbol has.
\<close>

fun piece_symbol :: "piece_type \<Rightarrow> string" where
  "piece_symbol Pawn = ''p''"
| "piece_symbol Knight = ''n''"
| "piece_symbol Bishop = ''b''"
| "piece_symbol Rook = ''r''"
| "piece_symbol Queen = ''q''"
| "piece_symbol King = ''k''"

definition upper_char :: "char \<Rightarrow> char" where
  "upper_char c =
     (case map_of (zip ''abcdefghijklmnopqrstuvwxyz'' ''ABCDEFGHIJKLMNOPQRSTUVWXYZ'') c of
        Some u \<Rightarrow> u
      | None \<Rightarrow> c)"

definition upper :: "string \<Rightarrow> string" where
  "upper s = map upper_char s"

definition symbol :: "piece \<Rightarrow> string" where
  "symbol p =
     (if color p = White then upper (piece_symbol (piece_type p))
      else piece_symbol (piece_type p))"

text \<open>
  \<^verbatim>\<open>
  PIECE_NAMES = {"P": "pawn", "N": "knight", "B": "bishop",
                 "R": "rook", "Q": "queen", "K": "king"}
  \<close>
  and \<^verbatim>\<open>dict.get(key, default)\<close>.
\<close>

definition PIECE_NAMES :: "(string \<times> string) list" where
  "PIECE_NAMES =
     [(''P'', ''pawn''), (''N'', ''knight''), (''B'', ''bishop''),
      (''R'', ''rook''), (''Q'', ''queen''), (''K'', ''king'')]"

definition dict_get :: "('k \<times> 'v) list \<Rightarrow> 'k \<Rightarrow> 'v \<Rightarrow> 'v" where
  "dict_get d k dflt = (case map_of d k of Some v \<Rightarrow> v | None \<Rightarrow> dflt)"

text \<open>
  Lines 139-140 of the handler:
  \<^verbatim>\<open>
  piece = board.piece_at(move.from_square)
  piece_name = PIECE_NAMES.get(piece.symbol().upper(), "piece") if piece else "piece"
  \<close>
\<close>

definition piece_name_of :: "board \<Rightarrow> move \<Rightarrow> string" where
  "piece_name_of b m =
     (case piece_at b (from_square m) of
        Some p \<Rightarrow> dict_get PIECE_NAMES (upper (symbol p)) ''piece''
      | None \<Rightarrow> ''piece'')"

text \<open>The English name of a piece type, as the specification lists them.\<close>

fun english_name :: "piece_type \<Rightarrow> string" where
  "english_name Pawn = ''pawn''"
| "english_name Knight = ''knight''"
| "english_name Bishop = ''bishop''"
| "english_name Rook = ''rook''"
| "english_name Queen = ''queen''"
| "english_name King = ''king''"

section \<open>Engine scores\<close>

text \<open>
  The engine library reports a score as centipawns (\<^verbatim>\<open>Cp(n)\<close>), as a forced mate in
  \<open>n\<close> moves (\<^verbatim>\<open>Mate(n)\<close>, \<open>n > 0\<close> when the side to move mates, otherwise when it is
  mated) or as a mate already on the board (\<^verbatim>\<open>MateGiven\<close>); a \<^verbatim>\<open>PovScore\<close> pairs the
  score relative to the side to move with that side. \<^verbatim>\<open>Score.score(mate_score)\<close> is
  the library's conversion to an integer: centipawns as they are, \<^verbatim>\<open>Mate(n)\<close> to
  \<^verbatim>\<open>mate_score - n\<close> for \<open>n > 0\<close> and to \<^verbatim>\<open>-mate_score - n\<close> otherwise, \<^verbatim>\<open>MateGiven\<close>
  to \<^verbatim>\<open>mate_score\<close>, and a mate to \<^verbatim>\<open>None\<close> when no \<^verbatim>\<open>mate_score\<close> is given.
\<close>

datatype score = Cp int | Mate int | MateGiven

record pov_score =
  relative :: score
  pov_turn :: color

fun score_value :: "score \<Rightarrow> int option \<Rightarrow> int option" where
  "score_value (Cp n) mate_score = Some n"
| "score_value (Mate n) None = None"
| "score_value (Mate n) (Some ms) = Some (if n > 0 then ms - n else - ms - n)"
| "score_value MateGiven mate_score = mate_score"

text \<open>
  The analysis result is a dictionary; the handler reads only its \<^verbatim>\<open>"score"\<close> key.
  Lines 151-154:
  \<^verbatim>\<open>
  evaluation = 0
  score_info = info.get("score")
  if score_info and score_info.relative:
      evaluation = score_info.relative.score(mate_score=10000) or 0
  \<close>
  Score objects define no truth value of their own, so both tests hold whenever the key
  is present; \<^verbatim>\<open>x or 0\<close> replaces \<^verbatim>\<open>None\<close> and \<open>0\<close> by \<open>0\<close>.
\<close>

record info =
  info_score :: "pov_score option"

definition or_zero :: "int option \<Rightarrow> int" where
  "or_zero x = (case x of None \<Rightarrow> 0 | Some v \<Rightarrow> if v = 0 then 0 else v)"

definition evaluation_of :: "info \<Rightarrow> int" where
  "evaluation_of i =
     (case info_score i of
        None \<Rightarrow> 0
      | Some score_info \<Rightarrow> or_zero (score_value (relative score_info) (Some 10000)))"

text \<open>
  Lines 156-158, on the board after the user's move:
  \<^verbatim>\<open>
  # Normalize to user's perspective
  if board.turn == chess.BLACK:
      evaluation = -evaluation
  \<close>
\<close>

definition user_perspective :: "board \<Rightarrow> int \<Rightarrow> int" where
  "user_perspective b evaluation = (if turn b = Black then - evaluation else evaluation)"

definition opponent :: "color \<Rightarrow> color" where
  "opponent c = (case c of White \<Rightarrow> Black | Black \<Rightarrow> White)"

section \<open>The process state and the outside world\<close>

text \<open>
  \<^verbatim>\<open>move_log: List[Dict] = []\<close> is the only state of the process. An entry is the
  dictionary the handler appends, with keys \<^verbatim>\<open>move\<close>, \<^verbatim>\<open>piece\<close>, \<^verbatim>\<open>phase\<close>,
  \<^verbatim>\<open>quality\<close> and \<^verbatim>\<open>explanation\<close>. Beside the log, the state of the model records, in
  order, the calls the process has made to the engine library and to the commentary
  backend, so that "no engine was started" and "quit was called" can be stated.
\<close>

record entry =
  e_move :: string
  e_piece :: string
  e_phase :: string
  e_quality :: string
  e_explanation :: string

datatype event =
    Popen_uci
  | Analyse board
  | Post string
  | Play board
  | Quit

record world =
  move_log :: "entry list"
  effects :: "event list"

definition emit :: "event \<Rightarrow> world \<Rightarrow> world" where
  "emit ev w = w\<lparr>effects := effects w @ [ev]\<rparr>"

definition initial_world :: world where
  "initial_world = \<lparr>move_log = [], effects = []\<rparr>"

text \<open>
  The operations of the rules library that depend on the rules of chess. A decoder
  answers \<open>None\<close> where the library raises (\<^verbatim>\<open>chess.Board(fen)\<close> and
  \<^verbatim>\<open>chess.Move.from_uci\<close> raise \<^verbatim>\<open>ValueError\<close> on malformed text).
\<close>

record rules =
  parse_fen :: "string \<Rightarrow> board option"
  from_uci :: "string \<Rightarrow> move option"
  is_legal :: "board \<Rightarrow> move \<Rightarrow> bool"
  san_of :: "board \<Rightarrow> move \<Rightarrow> string"
  push :: "board \<Rightarrow> move \<Rightarrow> board"
  fen_of :: "board \<Rightarrow> string"
  uci_of :: "move \<Rightarrow> string"

text \<open>
  What the engine process does during one request: whether it can be spawned, what
  analysis and play answer for a board and a time limit in milliseconds (\<open>None\<close> where
  the call raises), and whether quitting succeeds.
\<close>

record play_result =
  result_move :: "move option"

record engine =
  popen_uci :: bool
  analyse :: "board \<Rightarrow> nat \<Rightarrow> info option"
  play :: "board \<Rightarrow> nat \<Rightarrow> play_result option"
  quit :: bool

section \<open>Commentary\<close>

text \<open>
  The backend is an HTTP service. A call either raises (connection error, timeout) or
  returns a response whose body \<^verbatim>\<open>r.json()\<close> decodes, raising on a body that is not
  JSON. JSON numbers are restricted to integers here; the handler reads strings only.
\<close>

datatype json =
    JNull
  | JBool bool
  | JInt int
  | JString string
  | JArray "json list"
  | JObject "(string \<times> json) list"

datatype post_result =
    Post_raised
  | Response "json option"

text \<open>The backend answers a call to an endpoint with a model name and a prompt.\<close>

type_synonym backend = "string \<Rightarrow> string \<Rightarrow> string \<Rightarrow> post_result"

text \<open>
  \<^verbatim>\<open>str(n)\<close> for an integer, \<^verbatim>\<open>str.strip()\<close>, and \<^verbatim>\<open>d.get(key, default)\<close> on a decoded
  object, where the last of several equal keys counts. A \<open>char\<close> stands for a code
  point below 256; \<^verbatim>\<open>strip\<close> removes the characters Python counts as white space.
\<close>

fun nat_str :: "nat \<Rightarrow> string" where
  "nat_str n =
     (if n < 10 then [''0123456789'' ! n]
      else nat_str (n div 10) @ [''0123456789'' ! (n mod 10)])"

definition int_str :: "int \<Rightarrow> string" where
  "int_str i = (if i < 0 then CHR ''-'' # nat_str (nat (- i)) else nat_str (nat i))"

definition isspace :: "char \<Rightarrow> bool" where
  "isspace c =
     (let n = (of_char c :: nat)
      in (9 \<le> n \<and> n \<le> 13) \<or> (28 \<le> n \<and> n \<le> 32) \<or> n = 133 \<or> n = 160)"

definition strip :: "string \<Rightarrow> string" where
  "strip s = rev (dropWhile isspace (rev (dropWhile isspace s)))"

definition OLLAMA_ENDPOINT :: string where
  "OLLAMA_ENDPOINT = ''http://localhost:11434/api/generate''"

definition OLLAMA_MODEL :: string where
  "OLLAMA_MODEL = ''llama3''"

definition prompt_of :: "string \<Rightarrow> string \<Rightarrow> int \<Rightarrow> string \<Rightarrow> string \<Rightarrow> string" where
  "prompt_of san piece eval_change phase quality =
     ''You generate one-line chess commentary.\<newline>'' @
     ''This is not a conversation.\<newline>'' @
     ''No acknowledgements, no questions, no setup text.\<newline>\<newline>'' @
     ''Move: '' @ san @ ''\<newline>'' @
     ''Piece: '' @ piece @ ''\<newline>'' @
     ''Phase: '' @ phase @ ''\<newline>'' @
     ''Quality: '' @ quality @ ''\<newline>'' @
     ''Eval delta: '' @ int_str eval_change @ ''\<newline>\<newline>'' @
     ''Write exactly ONE short sentence describing the resulting position or momentum.\<newline>'' @
     ''If the move is a mistake or blunder, describe loss, weakness, or advantage for the opponent.\<newline>'' @
     ''If the move is a mistake or blunder, NEVER describe it as an attack, initiative, or sacrifice.\<newline>'' @
     ''Tone: confident, calm, professional, lightly witty.\<newline>\<newline>'' @
     ''Strict rules:\<newline>'' @
     ''- Never address the player\<newline>'' @
     ''- Never ask questions\<newline>'' @
     ''- Never mention inputs or parameters\<newline>'' @
     ''- Never describe the move itself\<newline>'' @
     ''- Never mention squares, locations, directions, or piece actions\<newline>'' @
     ''- Never mention numbers, evaluations, or centipawns\<newline>'' @
     ''- Never use 'you', 'your', or 'you're'\<newline>'' @
     ''- No quotes, labels, or explanations\<newline>'' @
     ''- Maximum 15 words\<newline>'' @
     ''- Output ONE sentence only\<newline>''"

text \<open>
  \<^verbatim>\<open>
  try:
      r = requests.post(OLLAMA_ENDPOINT, json={...prompt...}, timeout=30)
      return r.json().get("response", "").strip() or "Move noted."
  except Exception:
      return "No explanation available."
  \<close>
  Every step of the \<^verbatim>\<open>try\<close> block that can raise is a branch: the call itself, the
  decoding of the body, \<^verbatim>\<open>.get\<close> on a value that is not an object, and \<^verbatim>\<open>.strip\<close> on
  a value that is not a string. \<open>None\<close> stands for the exception.
\<close>

definition requests_post :: "backend \<Rightarrow> string \<Rightarrow> post_result" where
  "requests_post B prompt = B OLLAMA_ENDPOINT OLLAMA_MODEL prompt"

definition response_text :: "post_result \<Rightarrow> string option" where
  "response_text r =
     (case r of
        Post_raised \<Rightarrow> None
      | Response None \<Rightarrow> None
      | Response (Some (JObject kvs)) \<Rightarrow>
          (case dict_get (rev kvs) ''response'' (JString []) of
             JString s \<Rightarrow> Some (strip s)
           | _ \<Rightarrow> None)
      | Response (Some _) \<Rightarrow> None)"

definition explain_move ::
  "backend \<Rightarrow> string \<Rightarrow> string \<Rightarrow> int \<Rightarrow> string \<Rightarrow> string \<Rightarrow> world \<Rightarrow> string \<times> world" where
  "explain_move B san piece eval_change phase quality w =
     (let prompt = prompt_of san piece eval_change phase quality;
          w' = emit (Post prompt) w
      in (case response_text (requests_post B prompt) of
            Some text \<Rightarrow> (if text = [] then ''Move noted.'' else text, w')
          | None \<Rightarrow> (''No explanation available.'', w')))"

section \<open>The request handler\<close>

text \<open>
  A request is the body \<^verbatim>\<open>GameState\<close>. The handler answers with a dictionary: either
  \<^verbatim>\<open>{"error": ...}\<close> or the four keys \<^verbatim>\<open>fen\<close>, \<^verbatim>\<open>ai_move\<close>, \<^verbatim>\<open>explanation\<close> and
  \<^verbatim>\<open>history\<close>. An exception that leaves the handler is a \<open>fault\<close>: the request fails
  and no dictionary is returned.
\<close>

record GameState =
  fen :: string
  user_move :: string

record move_payload =
  r_fen :: string
  r_ai_move :: string
  r_explanation :: string
  r_history :: "entry list"

datatype payload =
    Error_payload string
  | Move_payload move_payload

datatype fault =
    Invalid_fen
  | Invalid_uci
  | Engine_start_failed
  | Engine_analyse_failed
  | Engine_play_failed
  | Engine_quit_failed

text \<open>
  Lines 179-185, the engine's reply on the board after the user's move:
  \<^verbatim>\<open>
  ai_move = ""
  if result.move:
      board.push(result.move)
      ai_move = result.move.uci()
  \<close>
\<close>

definition apply_reply :: "rules \<Rightarrow> board \<Rightarrow> play_result \<Rightarrow> board \<times> string" where
  "apply_reply R b result =
     (case result_move result of
        None \<Rightarrow> (b, [])
      | Some r \<Rightarrow> if move_bool r then (push R b r, uci_of R r) else (b, []))"

text \<open>
  Lines 136-194: the handler after the legality check, in the order of the source. The
  entry is appended to the log before the engine is asked for its reply, and
  \<^verbatim>\<open>engine.quit()\<close> is the last call; no \<^verbatim>\<open>try\<close> or \<^verbatim>\<open>finally\<close> surrounds the engine
  calls. The time limits are those of the source, 0.1 s and 0.5 s, in milliseconds.
\<close>

definition analyse_and_reply ::
  "rules \<Rightarrow> engine \<Rightarrow> backend \<Rightarrow> board \<Rightarrow> move \<Rightarrow> world \<Rightarrow> (fault + payload) \<times> world" where
  "analyse_and_reply R E B board0 mv w0 =
     (let san = san_of R board0 mv;
          piece_name = piece_name_of board0 mv;
          board1 = push R board0 mv;
          w1 = emit Popen_uci w0
      in if \<not> popen_uci E then (Inl Engine_start_failed, w1)
      else
        let w2 = emit (Analyse board1) w1
        in (case analyse E board1 100 of
              None \<Rightarrow> (Inl Engine_analyse_failed, w2)
            | Some i \<Rightarrow>
                let evaluation = user_perspective board1 (evaluation_of i);
                    phase = game_phase board1;
                    quality = move_quality evaluation;
                    (explanation, w3) =
                       explain_move B san piece_name evaluation phase quality w2;
                    w4 = w3\<lparr>move_log := move_log w3 @
                            [\<lparr>e_move = san, e_piece = piece_name, e_phase = phase,
                              e_quality = quality, e_explanation = explanation\<rparr>]\<rparr>;
                    w5 = emit (Play board1) w4
                in (case play E board1 500 of
                      None \<Rightarrow> (Inl Engine_play_failed, w5)
                    | Some result \<Rightarrow>
                        let (board2, ai_move) = apply_reply R board1 result;
                            w6 = emit Quit w5
                        in if \<not> quit E then (Inl Engine_quit_failed, w6)
                           else (Inr (Move_payload
                                   \<lparr>r_fen = fen_of R board2, r_ai_move = ai_move,
                                    r_explanation = explanation,
                                    r_history = move_log w6\<rparr>), w6))))"

text \<open>
  Lines 127-134:
  \<^verbatim>\<open>
  board = chess.Board(state.fen)
  move = chess.Move.from_uci(state.user_move)
  if move not in board.legal_moves:
      return {"error": "Illegal move."}
  \<close>
\<close>

definition analyze_and_move ::
  "rules \<Rightarrow> engine \<Rightarrow> backend \<Rightarrow> GameState \<Rightarrow> world \<Rightarrow> (fault + payload) \<times> world" where
  "analyze_and_move R E B state w =
     (case parse_fen R (fen state) of
        None \<Rightarrow> (Inl Invalid_fen, w)
      | Some board0 \<Rightarrow>
          (case from_uci R (user_move state) of
             None \<Rightarrow> (Inl Invalid_uci, w)
           | Some mv \<Rightarrow>
               if \<not> is_legal R board0 mv then (Inr (Error_payload ''Illegal move.''), w)
               else analyse_and_reply R E B board0 mv w))"



text \<open>
  A request is successful when it is answered with the four-key dictionary. It has
  reached the append of line 171 when it is successful or when it failed in one of the
  two engine calls that follow the append.
\<close>

definition successful :: "fault + payload \<Rightarrow> bool" where
  "successful out = (case out of Inr (Move_payload p) \<Rightarrow> True | _ \<Rightarrow> False)"

definition recorded :: "fault + payload \<Rightarrow> bool" where
  "recorded out =
     (case out of
        Inr (Move_payload p) \<Rightarrow> True
      | Inl Engine_play_failed \<Rightarrow> True
      | Inl Engine_quit_failed \<Rightarrow> True
      | _ \<Rightarrow> False)"

section \<open>The rules library on two positions\<close>

text \<open>
  The theorems below hold for every behaviour of the rules library. To evaluate the
  handler on concrete requests, \<open>demo_rules\<close> gives the library's answers on the
  positions the examples use: the starting position and the position after 1. e4.
  It decodes exactly their two FEN strings, knows the twenty legal moves of each
  (sixteen pawn moves and four knight moves, none a capture, a check or a castling) and
  applies such a quiet move as the library does. \<^verbatim>\<open>board.fen()\<close> prints \<^verbatim>\<open>-\<close> for the
  en-passant field unless an en-passant capture is legal, which it is in no position
  reached here.
\<close>

definition square_name :: "square \<Rightarrow> string" where
  "square_name sq = [''abcdefgh'' ! (sq mod 8), ''12345678'' ! (sq div 8)]"

definition square_of_name :: "string \<Rightarrow> square option" where
  "square_of_name s = map_of (map (\<lambda>sq. (square_name sq, sq)) [0..<64]) s"

definition mk_move :: "square \<Rightarrow> square \<Rightarrow> move" where
  "mk_move f t = \<lparr>from_square = f, to_square = t, promotion = None, move_drop = None\<rparr>"

definition white :: "piece_type \<Rightarrow> piece option" where
  "white t = Some \<lparr>piece_type = t, color = White\<rparr>"

definition black :: "piece_type \<Rightarrow> piece option" where
  "black t = Some \<lparr>piece_type = t, color = Black\<rparr>"

definition back_rank :: "piece_type list" where
  "back_rank = [Rook, Knight, Bishop, Queen, King, Bishop, Knight, Rook]"

definition start_board :: board where
  "start_board =
     \<lparr>squares = map white back_rank @ replicate 8 (white Pawn) @ replicate 32 None
                 @ replicate 8 (black Pawn) @ map black back_rank,
      turn = White, castling = ''KQkq'', ep_square = None,
      halfmove_clock = 0, fullmove_number = 1\<rparr>"

definition quiet_push :: "board \<Rightarrow> move \<Rightarrow> board" where
  "quiet_push b m =
     (let p = piece_at b (from_square m);
          pawn = (case p of Some x \<Rightarrow> piece_type x = Pawn | None \<Rightarrow> False);
          capture = (piece_at b (to_square m) \<noteq> None);
          double = (to_square m = from_square m + 16 \<or> from_square m = to_square m + 16)
      in b\<lparr>squares := (squares b)[from_square m := None, to_square m := p],
            turn := opponent (turn b),
            ep_square := (if pawn \<and> double
                          then Some ((from_square m + to_square m) div 2) else None),
            halfmove_clock := (if pawn \<or> capture then 0 else halfmove_clock b + 1),
            fullmove_number := (if turn b = Black then fullmove_number b + 1
                                else fullmove_number b)\<rparr>)"

definition after_e4 :: board where
  "after_e4 = (quiet_push start_board (mk_move 12 28))\<lparr>ep_square := None\<rparr>"

definition start_fen :: string where
  "start_fen = ''rnbqkbnr/pppppppp/8/8/8/8/PPPPPPPP/RNBQKBNR w KQkq - 0 1''"

definition after_e4_fen :: string where
  "after_e4_fen = ''rnbqkbnr/pppppppp/8/8/4P3/8/PPPP1PPP/RNBQKBNR b KQkq - 0 1''"

definition demo_parse_fen :: "string \<Rightarrow> board option" where
  "demo_parse_fen s =
     (if s = start_fen then Some start_board
      else if s = after_e4_fen then Some after_e4
      else None)"

definition demo_from_uci :: "string \<Rightarrow> move option" where
  "demo_from_uci s =
     (if length s = 4 then
        (case (square_of_name (take 2 s), square_of_name (drop 2 s)) of
           (Some f, Some t) \<Rightarrow> if f = t then None else Some (mk_move f t)
         | _ \<Rightarrow> None)
      else None)"

definition white_opening_moves :: "move list" where
  "white_opening_moves =
     map (\<lambda>f. mk_move f (f + 8)) [8..<16] @ map (\<lambda>f. mk_move f (f + 16)) [8..<16]
     @ [mk_move 1 16, mk_move 1 18, mk_move 6 21, mk_move 6 23]"

definition black_opening_moves :: "move list" where
  "black_opening_moves =
     map (\<lambda>f. mk_move f (f - 8)) [48..<56] @ map (\<lambda>f. mk_move f (f - 16)) [48..<56]
     @ [mk_move 57 40, mk_move 57 42, mk_move 62 45, mk_move 62 47]"

definition demo_is_legal :: "board \<Rightarrow> move \<Rightarrow> bool" where
  "demo_is_legal b m =
     (if squares b = squares start_board \<and> turn b = White then m \<in> set white_opening_moves
      else if squares b = squares after_e4 \<and> turn b = Black then m \<in> set black_opening_moves
      else False)"

definition demo_san :: "board \<Rightarrow> move \<Rightarrow> string" where
  "demo_san b m =
     (case piece_at b (from_square m) of
        Some p \<Rightarrow> (if piece_type p = Pawn then [] else upper (piece_symbol (piece_type p)))
                  @ square_name (to_square m)
      | None \<Rightarrow> ''--'')"

fun fen_rank :: "piece option list \<Rightarrow> nat \<Rightarrow> string" where
  "fen_rank [] n = (if n = 0 then [] else nat_str n)"
| "fen_rank (None # xs) n = fen_rank xs (n + 1)"
| "fen_rank (Some p # xs) n = (if n = 0 then [] else nat_str n) @ symbol p @ fen_rank xs 0"

definition demo_fen :: "board \<Rightarrow> string" where
  "demo_fen b =
     concat (map (\<lambda>r. fen_rank (take 8 (drop (8 * r) (squares b))) 0
                       @ (if r = 0 then [] else ''/'')) [7, 6, 5, 4, 3, 2, 1, 0])
     @ (if turn b = White then '' w '' else '' b '')
     @ castling b @ '' - '' @ nat_str (halfmove_clock b) @ '' '' @ nat_str (fullmove_number b)"

definition demo_uci :: "move \<Rightarrow> string" where
  "demo_uci m =
     (case move_drop m of
        Some d \<Rightarrow> upper (piece_symbol d) @ ''@'' @ square_name (to_square m)
      | None \<Rightarrow>
         (case promotion m of
            Some p \<Rightarrow> square_name (from_square m) @ square_name (to_square m) @ piece_symbol p
          | None \<Rightarrow> if move_bool m then square_name (from_square m) @ square_name (to_square m)
                    else ''0000''))"

definition demo_rules :: rules where
  "demo_rules =
     \<lparr>parse_fen = demo_parse_fen, from_uci = demo_from_uci, is_legal = demo_is_legal,
      san_of = demo_san, push = quiet_push, fen_of = demo_fen, uci_of = demo_uci\<rparr>"

text \<open>
  Engines and backends for the examples: an engine that reports a score and replies
  with a move (or with none), one whose analysis raises, one whose reply raises; a
  backend that answers with a given body, one that answers with a sentence, and one
  that cannot be reached.
\<close>

definition engine_with :: "score option \<Rightarrow> move option \<Rightarrow> engine" where
  "engine_with s r =
     \<lparr>popen_uci = True,
      analyse = (\<lambda>b t. Some \<lparr>info_score =
                   (case s of None \<Rightarrow> None
                    | Some x \<Rightarrow> Some \<lparr>relative = x, pov_turn = turn b\<rparr>)\<rparr>),
      play = (\<lambda>b t. Some \<lparr>result_move = r\<rparr>),
      quit = True\<rparr>"

definition engine_analyse_raises :: engine where
  "engine_analyse_raises = (engine_with None None)\<lparr>analyse := (\<lambda>b t. None)\<rparr>"

definition engine_play_raises :: engine where
  "engine_play_raises = (engine_with (Some (Cp (- 30))) None)\<lparr>play := (\<lambda>b t. None)\<rparr>"

definition backend_reply :: "json option \<Rightarrow> backend" where
  "backend_reply body = (\<lambda>endpoint model prompt. Response body)"

definition backend_says :: "string \<Rightarrow> backend" where
  "backend_says s = backend_reply (Some (JObject [(''response'', JString s)]))"

definition backend_down :: backend where
  "backend_down = (\<lambda>endpoint model prompt. Post_raised)"



text \<open>Two later positions, by material only: all knights gone, and pawns and kings only.\<close>

definition without :: "square list \<Rightarrow> board \<Rightarrow> board" where
  "without sqs b = b\<lparr>squares := fold (\<lambda>sq xs. xs[sq := None]) sqs (squares b)\<rparr>"

definition no_knights_board :: board where
  "no_knights_board = without [1, 6, 57, 62] start_board"

definition pawns_and_kings_board :: board where
  "pawns_and_kings_board =
     without [0, 1, 2, 3, 5, 6, 7, 56, 57, 58, 59, 61, 62, 63] start_board"

section \<open>What one request contributes\<close>

text \<open>
  Names for what the statements below speak of. For a legal move \<open>m\<close> on board \<open>b\<close> and
  an analysis result \<open>i\<close>: the evaluation the handler classifies, the prompt it sends,
  and the AnalyzedMove it appends (lines 160-177). \<open>new_entries\<close> is what a request
  adds to an empty log.
\<close>

definition evaluation_after :: "rules \<Rightarrow> board \<Rightarrow> move \<Rightarrow> info \<Rightarrow> int" where
  "evaluation_after R b m i = user_perspective (push R b m) (evaluation_of i)"

definition prompt_for :: "rules \<Rightarrow> board \<Rightarrow> move \<Rightarrow> info \<Rightarrow> string" where
  "prompt_for R b m i =
     prompt_of (san_of R b m) (piece_name_of b m) (evaluation_after R b m i)
       (game_phase (push R b m)) (move_quality (evaluation_after R b m i))"

definition analyzed_move :: "rules \<Rightarrow> backend \<Rightarrow> board \<Rightarrow> move \<Rightarrow> info \<Rightarrow> entry" where
  "analyzed_move R B b m i =
     \<lparr>e_move = san_of R b m, e_piece = piece_name_of b m,
      e_phase = game_phase (push R b m),
      e_quality = move_quality (evaluation_after R b m i),
      e_explanation =
        fst (explain_move B (san_of R b m) (piece_name_of b m) (evaluation_after R b m i)
               (game_phase (push R b m)) (move_quality (evaluation_after R b m i))
               initial_world)\<rparr>"


text \<open>The calls made between two states of the world.\<close>

definition calls_made :: "world \<Rightarrow> world \<Rightarrow> event list" where
  "calls_made w w' = drop (length (effects w)) (effects w')"

section \<open>Quality and phase\<close>

text \<open>
  C2: for every integer evaluation, \<open>move_quality\<close> answers by the first matching
  threshold: at most -300 is a blunder, above -300 and at most -100 a mistake, above
  -100 and at most -30 an inaccuracy, at least 80 strong, everything else neutral; the
  eight boundary values -300, -299, -100, -99, -30, -29, 79 and 80 fall as listed.
\<close>

theorem move_quality_thresholds:
  "(e \<le> -300 \<longrightarrow> move_quality e = ''blunder'')
   \<and> (-300 < e \<and> e \<le> -100 \<longrightarrow> move_quality e = ''mistake'')
   \<and> (-100 < e \<and> e \<le> -30 \<longrightarrow> move_quality e = ''inaccuracy'')
   \<and> (80 \<le> e \<longrightarrow> move_quality e = ''strong'')
   \<and> (-30 < e \<and> e < 80 \<longrightarrow> move_quality e = ''neutral'')
   \<and> move_quality (-300) = ''blunder'' \<and> move_quality (-299) = ''mistake''
   \<and> move_quality (-100) = ''mistake'' \<and> move_quality (-99) = ''inaccuracy''
   \<and> move_quality (-30) = ''inaccuracy'' \<and> move_quality (-29) = ''neutral''
   \<and> move_quality 79 = ''neutral'' \<and> move_quality 80 = ''strong''"
  by (simp add: move_quality_def)

theorem move_quality_thresholds_witness:
  "move_quality (-450) = ''blunder'' \<and> move_quality (-150) = ''mistake''
   \<and> move_quality (-50) = ''inaccuracy'' \<and> move_quality 200 = ''strong''
   \<and> move_quality 0 = ''neutral''"
  using move_quality_thresholds [of "-450"] move_quality_thresholds [of "-150"]
    move_quality_thresholds [of "-50"] move_quality_thresholds [of 200]
    move_quality_thresholds [of 0]
  by simp

text \<open>
  The sum the source computes, over four piece types and two colours, counts every
  square holding a queen, rook, bishop or knight exactly once.
\<close>

lemma count_by_type_and_color:
  "sum_list (map (\<lambda>p. length (filter (\<lambda>sq. f sq = Some \<lparr>piece_type = p, color = White\<rparr>) xs)
                      + length (filter (\<lambda>sq. f sq = Some \<lparr>piece_type = p, color = Black\<rparr>) xs))
                 [Queen, Rook, Bishop, Knight])
   = length (filter (\<lambda>sq. is_minor_or_major (f sq)) xs)"
proof (induction xs)
  case Nil
  show ?case by simp
next
  case (Cons x xs)
  show ?case
  proof (cases "f x")
    case None
    with Cons show ?thesis by (simp add: is_minor_or_major_def)
  next
    case (Some p)
    obtain t c where p: "p = \<lparr>piece_type = t, color = c\<rparr>" by (cases p) auto
    show ?thesis using Cons Some p
      by (cases t; cases c) (simp_all add: is_minor_or_major_def)
  qed
qed

lemma piece_count_material: "piece_count b = material_count b"
  unfolding piece_count_def material_count_def pieces_def by (rule count_by_type_and_color)

text \<open>
  C6: the count \<open>game_phase\<close> computes is the number of queens, rooks, bishops and
  knights of both sides on the board; more than 10 is the opening, 5 to 10 the
  middlegame, at most 4 the endgame; two boards with the same count have the same
  phase, and changing only the side to move changes nothing.
\<close>

theorem game_phase_material:
  "piece_count b = material_count b
   \<and> (material_count b > 10 \<longrightarrow> game_phase b = ''opening'')
   \<and> (4 < material_count b \<and> material_count b \<le> 10 \<longrightarrow> game_phase b = ''middlegame'')
   \<and> (material_count b \<le> 4 \<longrightarrow> game_phase b = ''endgame'')
   \<and> (material_count b = material_count b' \<longrightarrow> game_phase b = game_phase b')
   \<and> game_phase (b\<lparr>turn := t\<rparr>) = game_phase b"
proof -
  have "piece_count (b\<lparr>turn := t\<rparr>) = piece_count b"
    by (simp add: piece_count_def pieces_def piece_at_def)
  then show ?thesis
    by (simp add: game_phase_def piece_count_material)
qed

lemma material_count_examples:
  "material_count start_board = 14" "material_count after_e4 = 14"
  "material_count no_knights_board = 10" "material_count pawns_and_kings_board = 0"
  by code_simp+

theorem game_phase_material_witness:
  "game_phase start_board = ''opening'' \<and> game_phase no_knights_board = ''middlegame''
   \<and> game_phase pawns_and_kings_board = ''endgame''
   \<and> game_phase start_board = game_phase after_e4
   \<and> game_phase (start_board\<lparr>turn := Black\<rparr>) = game_phase start_board"
  using game_phase_material [of start_board after_e4 Black]
    game_phase_material [of no_knights_board no_knights_board White]
    game_phase_material [of pawns_and_kings_board pawns_and_kings_board White]
  by (auto simp add: material_count_examples)

section \<open>The handler, step by step\<close>

text \<open>
  The commentary step changes the world by one recorded call and nothing else; its text
  does not depend on the world.
\<close>

lemma explain_move_world:
  "explain_move B san piece e phase quality w
   = (fst (explain_move B san piece e phase quality initial_world),
      w\<lparr>effects := effects w @ [Post (prompt_of san piece e phase quality)]\<rparr>)"
  by (simp add: explain_move_def Let_def emit_def split: option.splits)

text \<open>
  The handler after the legality check, as a case distinction over what the engine does:
  the outcome, the log and the calls made, in every case.
\<close>

lemma analyse_and_reply_eq:
  "analyse_and_reply R E B b m w =
     (if \<not> popen_uci E then (Inl Engine_start_failed, w\<lparr>effects := effects w @ [Popen_uci]\<rparr>)
      else case analyse E (push R b m) 100 of
        None \<Rightarrow> (Inl Engine_analyse_failed,
                  w\<lparr>effects := effects w @ [Popen_uci, Analyse (push R b m)]\<rparr>)
      | Some i \<Rightarrow>
         (case play E (push R b m) 500 of
            None \<Rightarrow> (Inl Engine_play_failed,
                      w\<lparr>move_log := move_log w @ [analyzed_move R B b m i],
                        effects := effects w @ [Popen_uci, Analyse (push R b m),
                                    Post (prompt_for R b m i), Play (push R b m)]\<rparr>)
          | Some res \<Rightarrow>
              if \<not> quit E then
                (Inl Engine_quit_failed,
                 w\<lparr>move_log := move_log w @ [analyzed_move R B b m i],
                   effects := effects w @ [Popen_uci, Analyse (push R b m),
                               Post (prompt_for R b m i), Play (push R b m), Quit]\<rparr>)
              else
                (Inr (Move_payload
                   \<lparr>r_fen = fen_of R (fst (apply_reply R (push R b m) res)),
                    r_ai_move = snd (apply_reply R (push R b m) res),
                    r_explanation = e_explanation (analyzed_move R B b m i),
                    r_history = move_log w @ [analyzed_move R B b m i]\<rparr>),
                 w\<lparr>move_log := move_log w @ [analyzed_move R B b m i],
                   effects := effects w @ [Popen_uci, Analyse (push R b m),
                               Post (prompt_for R b m i), Play (push R b m), Quit]\<rparr>)))"
  unfolding analyse_and_reply_def Let_def
  apply (subst explain_move_world)
  apply (simp add: emit_def analyzed_move_def prompt_for_def evaluation_after_def
       split: option.splits prod.splits)
  done

section \<open>Illegal moves\<close>

text \<open>
  C1: when the position and the move decode and the move is not legal in the position,
  the handler answers exactly \<^verbatim>\<open>{"error": "Illegal move."}\<close> and leaves the world as it
  was: no call to the engine library or to the commentary backend is made, and the log
  keeps its entries and its length.
\<close>

theorem illegal_move_rejected:
  assumes "parse_fen R (fen st) = Some P"
    and "from_uci R (user_move st) = Some M"
    and "\<not> is_legal R P M"
  shows "analyze_and_move R E B st w = (Inr (Error_payload ''Illegal move.''), w)
         \<and> effects (snd (analyze_and_move R E B st w)) = effects w
         \<and> move_log (snd (analyze_and_move R E B st w)) = move_log w
         \<and> length (move_log (snd (analyze_and_move R E B st w))) = length (move_log w)"
  using assms by (simp add: analyze_and_move_def)

lemma demo_a1a3:
  "parse_fen demo_rules start_fen = Some start_board"
  "from_uci demo_rules ''a1a3'' = Some (mk_move 0 16)"
  "\<not> is_legal demo_rules start_board (mk_move 0 16)"
  by code_simp+

theorem illegal_move_rejected_witness:
  "parse_fen demo_rules (fen \<lparr>fen = start_fen, user_move = ''a1a3''\<rparr>) = Some start_board
   \<and> from_uci demo_rules (user_move \<lparr>fen = start_fen, user_move = ''a1a3''\<rparr>) = Some (mk_move 0 16)
   \<and> \<not> is_legal demo_rules start_board (mk_move 0 16)
   \<and> analyze_and_move demo_rules (engine_with (Some (Cp (- 30))) None) (backend_says ''Solid.'')
        \<lparr>fen = start_fen, user_move = ''a1a3''\<rparr> initial_world
      = (Inr (Error_payload ''Illegal move.''), initial_world)"
  using illegal_move_rejected [of demo_rules "\<lparr>fen = start_fen, user_move = ''a1a3''\<rparr>"
      start_board "mk_move 0 16" "engine_with (Some (Cp (- 30))) None" "backend_says ''Solid.''"
      initial_world]
  by (simp add: demo_a1a3)

section \<open>Commentary fallbacks\<close>

text \<open>
  C4: for every input of \<open>explain_move\<close> and every behaviour of the backend: if the
  call raises, or the body is not JSON, or not an object, or its \<^verbatim>\<open>response\<close> is not a
  string, the commentary is exactly "No explanation available."; if the call succeeds
  and the text is empty after stripping, it is exactly "Move noted."; otherwise it is
  the stripped text. The function has no failing outcome: it always returns a
  non-empty string, and its only effect is the one call.
\<close>

theorem commentary_fallbacks:
  "(requests_post B (prompt_of san piece e phase quality) = Post_raised
      \<longrightarrow> fst (explain_move B san piece e phase quality w) = ''No explanation available.'')
   \<and> (requests_post B (prompt_of san piece e phase quality) = Response None
      \<longrightarrow> fst (explain_move B san piece e phase quality w) = ''No explanation available.'')
   \<and> (\<forall>j. requests_post B (prompt_of san piece e phase quality) = Response (Some j)
          \<and> (\<forall>kvs. j \<noteq> JObject kvs)
      \<longrightarrow> fst (explain_move B san piece e phase quality w) = ''No explanation available.'')
   \<and> (\<forall>kvs. requests_post B (prompt_of san piece e phase quality) = Response (Some (JObject kvs))
          \<and> (\<forall>s. dict_get (rev kvs) ''response'' (JString []) \<noteq> JString s)
      \<longrightarrow> fst (explain_move B san piece e phase quality w) = ''No explanation available.'')
   \<and> (\<forall>kvs s. requests_post B (prompt_of san piece e phase quality) = Response (Some (JObject kvs))
          \<and> dict_get (rev kvs) ''response'' (JString []) = JString s \<and> strip s = []
      \<longrightarrow> fst (explain_move B san piece e phase quality w) = ''Move noted.'')
   \<and> (\<forall>kvs s. requests_post B (prompt_of san piece e phase quality) = Response (Some (JObject kvs))
          \<and> dict_get (rev kvs) ''response'' (JString []) = JString s \<and> strip s \<noteq> []
      \<longrightarrow> fst (explain_move B san piece e phase quality w) = strip s)
   \<and> fst (explain_move B san piece e phase quality w) \<noteq> []
   \<and> snd (explain_move B san piece e phase quality w)
       = emit (Post (prompt_of san piece e phase quality)) w"
  by (auto simp add: explain_move_def response_text_def Let_def
           split: option.splits post_result.splits json.splits)

lemma strip_examples: "strip '' \<newline> '' = []" "strip '' Solid. '' = ''Solid.''" "strip [] = []"
  by code_simp+

lemma requests_post_examples:
  "requests_post (backend_reply body) p = Response body"
  "requests_post (backend_says s) p = Response (Some (JObject [(''response'', JString s)]))"
  "requests_post backend_down p = Post_raised"
  by (simp_all add: requests_post_def backend_says_def backend_down_def backend_reply_def)

theorem commentary_fallbacks_witness:
  "fst (explain_move backend_down ''e4'' ''pawn'' 30 ''opening'' ''neutral'' initial_world)
     = ''No explanation available.''
   \<and> fst (explain_move (backend_reply None) ''e4'' ''pawn'' 30 ''opening'' ''neutral'' initial_world)
     = ''No explanation available.''
   \<and> fst (explain_move (backend_reply (Some (JArray []))) ''e4'' ''pawn'' 30 ''opening'' ''neutral'' initial_world)
     = ''No explanation available.''
   \<and> fst (explain_move (backend_reply (Some (JObject [(''response'', JNull)]))) ''e4'' ''pawn'' 30 ''opening'' ''neutral'' initial_world)
     = ''No explanation available.''
   \<and> fst (explain_move (backend_says '' \<newline> '') ''e4'' ''pawn'' 30 ''opening'' ''neutral'' initial_world)
     = ''Move noted.''
   \<and> fst (explain_move (backend_reply (Some (JObject []))) ''e4'' ''pawn'' 30 ''opening'' ''neutral'' initial_world)
     = ''Move noted.''
   \<and> fst (explain_move (backend_says '' Solid. '') ''e4'' ''pawn'' 30 ''opening'' ''neutral'' initial_world)
     = ''Solid.''"
  using commentary_fallbacks [of backend_down "''e4''" "''pawn''" 30 "''opening''" "''neutral''" initial_world]
    commentary_fallbacks [of "backend_reply None" "''e4''" "''pawn''" 30 "''opening''" "''neutral''" initial_world]
    commentary_fallbacks [of "backend_reply (Some (JArray []))" "''e4''" "''pawn''" 30 "''opening''" "''neutral''" initial_world]
    commentary_fallbacks [of "backend_reply (Some (JObject [(''response'', JNull)]))" "''e4''" "''pawn''" 30 "''opening''" "''neutral''" initial_world]
    commentary_fallbacks [of "backend_says '' \<newline> ''" "''e4''" "''pawn''" 30 "''opening''" "''neutral''" initial_world]
    commentary_fallbacks [of "backend_reply (Some (JObject []))" "''e4''" "''pawn''" 30 "''opening''" "''neutral''" initial_world]
    commentary_fallbacks [of "backend_says '' Solid. ''" "''e4''" "''pawn''" 30 "''opening''" "''neutral''" initial_world]
  by (simp add: requests_post_examples dict_get_def strip_examples)

section \<open>Requests with a legal move\<close>

lemma analyze_and_move_legal:
  "parse_fen R (fen st) = Some P \<Longrightarrow> from_uci R (user_move st) = Some M \<Longrightarrow> is_legal R P M
   \<Longrightarrow> analyze_and_move R E B st w = analyse_and_reply R E B P M w"
  by (simp add: analyze_and_move_def)

text \<open>The demo library and the demo engines on the requests of the examples.\<close>

lemma demo_e2e4:
  "parse_fen demo_rules start_fen = Some start_board"
  "from_uci demo_rules ''e2e4'' = Some (mk_move 12 28)"
  "is_legal demo_rules start_board (mk_move 12 28)"
  by code_simp+


lemma demo_rules_sel:
  "push demo_rules = quiet_push" "fen_of demo_rules = demo_fen" "uci_of demo_rules = demo_uci"
  "san_of demo_rules = demo_san"
  by (simp_all add: demo_rules_def)

lemma demo_turns:
  "turn (quiet_push b m) = opponent (turn b)"
  "turn start_board = White" "turn after_e4 = Black"
  "opponent White = Black" "opponent Black = White"
  by (simp_all add: quiet_push_def Let_def start_board_def after_e4_def opponent_def)

lemma demo_fens:
  "demo_fen (quiet_push start_board (mk_move 12 28))
     = ''rnbqkbnr/pppppppp/8/8/4P3/8/PPPP1PPP/RNBQKBNR b KQkq - 0 1''"
  "demo_fen (quiet_push (quiet_push start_board (mk_move 12 28)) (mk_move 52 36))
     = ''rnbqkbnr/pppp1ppp/8/4p3/4P3/8/PPPP1PPP/RNBQKBNR w KQkq - 0 2''"
  "demo_uci (mk_move 52 36) = ''e7e5''"
  "move_bool (mk_move 52 36)"
  by code_simp+

lemma demo_piece: "piece_at start_board (from_square (mk_move 12 28)) = white Pawn"
  by code_simp

lemma engine_sel:
  "popen_uci (engine_with s r) = True" "quit (engine_with s r) = True"
  "play (engine_with s r) b t = Some \<lparr>result_move = r\<rparr>"
  "analyse (engine_with (Some x) r) b t = Some \<lparr>info_score = Some \<lparr>relative = x, pov_turn = turn b\<rparr>\<rparr>"
  "analyse (engine_with None r) b t = Some \<lparr>info_score = None\<rparr>"
  "popen_uci engine_analyse_raises = True" "analyse engine_analyse_raises b t = None"
  "popen_uci engine_play_raises = True" "play engine_play_raises b t = None"
  "quit engine_play_raises = True"
  "analyse engine_play_raises b t = Some \<lparr>info_score = Some \<lparr>relative = Cp (- 30), pov_turn = turn b\<rparr>\<rparr>"
  by (simp_all add: engine_with_def engine_analyse_raises_def engine_play_raises_def)

section \<open>The engine session\<close>

text \<open>
  The source calls \<^verbatim>\<open>engine.quit()\<close> once, as the last statement before \<^verbatim>\<open>return\<close>, with
  no \<^verbatim>\<open>try\<close> or \<^verbatim>\<open>finally\<close> around the engine calls. A request whose analysis raises
  after the process was spawned ends without any call of \<^verbatim>\<open>quit\<close>: on the starting
  position with the move e2e4, the calls made are the spawn and the analysis only.
\<close>

theorem quit_skipped_when_analysis_raises:
  "popen_uci engine_analyse_raises
   \<and> fst (analyze_and_move demo_rules engine_analyse_raises (backend_says ''Solid.'')
            \<lparr>fen = start_fen, user_move = ''e2e4''\<rparr> initial_world) = Inl Engine_analyse_failed
   \<and> Popen_uci \<in> set (effects (snd (analyze_and_move demo_rules engine_analyse_raises
            (backend_says ''Solid.'') \<lparr>fen = start_fen, user_move = ''e2e4''\<rparr> initial_world)))
   \<and> Quit \<notin> set (effects (snd (analyze_and_move demo_rules engine_analyse_raises
            (backend_says ''Solid.'') \<lparr>fen = start_fen, user_move = ''e2e4''\<rparr> initial_world)))"
  by (simp add: analyze_and_move_def demo_e2e4 analyse_and_reply_eq engine_sel initial_world_def)

text \<open>
  C5, as the code has it: for every request with a legal move whose engine process is
  spawned, \<^verbatim>\<open>quit\<close> is called, as the last call of the request, when the analysis and
  the reply both return; when the analysis raises, the request fails and the calls
  made are the spawn and the analysis; when the reply raises, the request fails and the
  calls made end with the reply request. In neither failing case is \<^verbatim>\<open>quit\<close> called.
\<close>

theorem engine_quit_only_after_both_calls:
  assumes "parse_fen R (fen st) = Some P"
    and "from_uci R (user_move st) = Some M"
    and "is_legal R P M"
    and "popen_uci E"
    and "analyze_and_move R E B st w = (out, w')"
  shows "(analyse E (push R P M) 100 = None
            \<longrightarrow> out = Inl Engine_analyse_failed
                \<and> calls_made w w' = [Popen_uci, Analyse (push R P M)])
   \<and> (\<forall>i. analyse E (push R P M) 100 = Some i \<and> play E (push R P M) 500 = None
            \<longrightarrow> out = Inl Engine_play_failed
                \<and> calls_made w w' = [Popen_uci, Analyse (push R P M), Post (prompt_for R P M i),
                                      Play (push R P M)])
   \<and> (\<forall>i res. analyse E (push R P M) 100 = Some i \<and> play E (push R P M) 500 = Some res
            \<longrightarrow> calls_made w w' = [Popen_uci, Analyse (push R P M), Post (prompt_for R P M i),
                                      Play (push R P M), Quit])"
  using assms
  by (auto simp add: analyze_and_move_legal analyse_and_reply_eq calls_made_def
           split: if_splits)

theorem engine_quit_only_after_both_calls_witness:
  "(\<exists>out w'. analyze_and_move demo_rules engine_analyse_raises (backend_says ''Solid.'')
        \<lparr>fen = start_fen, user_move = ''e2e4''\<rparr> initial_world = (out, w')
      \<and> out = Inl Engine_analyse_failed \<and> Quit \<notin> set (calls_made initial_world w'))
   \<and> (\<exists>out w'. analyze_and_move demo_rules engine_play_raises (backend_says ''Solid.'')
        \<lparr>fen = start_fen, user_move = ''e2e4''\<rparr> initial_world = (out, w')
      \<and> out = Inl Engine_play_failed \<and> Quit \<notin> set (calls_made initial_world w'))
   \<and> (\<exists>out w'. analyze_and_move demo_rules (engine_with (Some (Cp (- 30))) (Some (mk_move 52 36))) (backend_says ''Solid.'')
        \<lparr>fen = start_fen, user_move = ''e2e4''\<rparr> initial_world = (out, w')
      \<and> last (calls_made initial_world w') = Quit)"
proof -
  let ?st = "\<lparr>fen = start_fen, user_move = ''e2e4''\<rparr>"
  have d: "parse_fen demo_rules (fen ?st) = Some start_board"
    "from_uci demo_rules (user_move ?st) = Some (mk_move 12 28)"
    "is_legal demo_rules start_board (mk_move 12 28)"
    by (simp_all add: demo_e2e4)
  obtain o1 w1 where r1: "analyze_and_move demo_rules engine_analyse_raises
      (backend_says ''Solid.'') ?st initial_world = (o1, w1)" by fastforce
  obtain o2 w2 where r2: "analyze_and_move demo_rules engine_play_raises
      (backend_says ''Solid.'') ?st initial_world = (o2, w2)" by fastforce
  obtain o3 w3 where r3: "analyze_and_move demo_rules (engine_with (Some (Cp (- 30))) (Some (mk_move 52 36)))
      (backend_says ''Solid.'') ?st initial_world = (o3, w3)" by fastforce
  from engine_quit_only_after_both_calls [OF d _ r1]
  have "o1 = Inl Engine_analyse_failed \<and> Quit \<notin> set (calls_made initial_world w1)"
    by (simp add: engine_sel)
  moreover from engine_quit_only_after_both_calls [OF d _ r2]
  have "o2 = Inl Engine_play_failed \<and> Quit \<notin> set (calls_made initial_world w2)"
    by (simp add: engine_sel)
  moreover from engine_quit_only_after_both_calls [OF d _ r3]
  have "last (calls_made initial_world w3) = Quit"
    by (simp add: engine_sel)
  ultimately show ?thesis using r1 r2 r3 by simp
qed

section \<open>Evaluation\<close>

text \<open>
  A forced mate in three for the side to move is reported as \<^verbatim>\<open>Mate(3)\<close>; the library
  converts it to \<open>10000 - 3\<close>, not to the sentinel itself.
\<close>

theorem mate_in_three_is_not_the_sentinel:
  "evaluation_of \<lparr>info_score = Some \<lparr>relative = Mate 3, pov_turn = Black\<rparr>\<rparr> = 9997
   \<and> evaluation_of \<lparr>info_score = Some \<lparr>relative = Mate 3, pov_turn = Black\<rparr>\<rparr> \<noteq> 10000
   \<and> evaluation_of \<lparr>info_score = Some \<lparr>relative = Mate 3, pov_turn = Black\<rparr>\<rparr> \<noteq> - 10000"
  by (simp add: evaluation_of_def or_zero_def)

text \<open>
  C7, as the code has it: without a score the evaluation is 0; a centipawn score is
  taken as it is; a mate already on the board is 10000; a forced mate in \<open>n\<close> moves is
  \<open>10000 - n\<close> when the side to move mates (\<open>n > 0\<close>) and \<open>-10000 - n\<close> when it is being
  mated (\<open>n \<le> 0\<close>), hence positive and below 10000, respectively negative and at least
  -10000, for distances below 10000. The evaluation is an integer in every case.
\<close>

theorem evaluation_of_score:
  "evaluation_of \<lparr>info_score = None\<rparr> = 0
   \<and> evaluation_of \<lparr>info_score = Some \<lparr>relative = Cp c, pov_turn = t\<rparr>\<rparr> = c
   \<and> evaluation_of \<lparr>info_score = Some \<lparr>relative = MateGiven, pov_turn = t\<rparr>\<rparr> = 10000
   \<and> (0 < n \<longrightarrow> evaluation_of \<lparr>info_score = Some \<lparr>relative = Mate n, pov_turn = t\<rparr>\<rparr>
                    = 10000 - n)
   \<and> (n \<le> 0 \<longrightarrow> evaluation_of \<lparr>info_score = Some \<lparr>relative = Mate n, pov_turn = t\<rparr>\<rparr>
                    = - 10000 - n)
   \<and> (0 < n \<and> n < 10000
        \<longrightarrow> 0 < evaluation_of \<lparr>info_score = Some \<lparr>relative = Mate n, pov_turn = t\<rparr>\<rparr>
          \<and> evaluation_of \<lparr>info_score = Some \<lparr>relative = Mate n, pov_turn = t\<rparr>\<rparr> < 10000)
   \<and> (- 10000 < n \<and> n \<le> 0
        \<longrightarrow> - 10000 \<le> evaluation_of \<lparr>info_score = Some \<lparr>relative = Mate n, pov_turn = t\<rparr>\<rparr>
          \<and> evaluation_of \<lparr>info_score = Some \<lparr>relative = Mate n, pov_turn = t\<rparr>\<rparr> < 0)"
  by (simp add: evaluation_of_def or_zero_def)

theorem evaluation_of_score_witness:
  "evaluation_of \<lparr>info_score = Some \<lparr>relative = Mate 1, pov_turn = White\<rparr>\<rparr> = 9999
   \<and> evaluation_of \<lparr>info_score = Some \<lparr>relative = Mate (- 2), pov_turn = White\<rparr>\<rparr> = - 9998
   \<and> evaluation_of \<lparr>info_score = Some \<lparr>relative = Mate 0, pov_turn = White\<rparr>\<rparr> = - 10000"
  using evaluation_of_score [of 1 White 1] evaluation_of_score [of 1 White "- 2"]
    evaluation_of_score [of 1 White 0]
  by simp

text \<open>
  C3 asks for the evaluation relative to the user who just moved, whatever the user's
  colour. The source negates the engine's score exactly when Black is to move after the
  user's move, that is when the user plays White. For a user playing Black (position
  after 1. e4, move e7e5) White, the opponent, is to move; an engine score of +120 for
  the side to move is kept as +120 and the user's move is recorded as "strong", where
  the evaluation from the user's side is -120.
\<close>

theorem black_user_evaluation_keeps_engine_sign:
  "parse_fen demo_rules after_e4_fen = Some after_e4
   \<and> from_uci demo_rules ''e7e5'' = Some (mk_move 52 36)
   \<and> is_legal demo_rules after_e4 (mk_move 52 36)
   \<and> turn after_e4 = Black
   \<and> turn (push demo_rules after_e4 (mk_move 52 36)) = White
   \<and> evaluation_after demo_rules after_e4 (mk_move 52 36)
        \<lparr>info_score = Some \<lparr>relative = Cp 120, pov_turn = White\<rparr>\<rparr> = 120
   \<and> move_log (snd (analyze_and_move demo_rules (engine_with (Some (Cp 120)) (Some (mk_move 6 21))) backend_down
        \<lparr>fen = after_e4_fen, user_move = ''e7e5''\<rparr> initial_world))
      = [\<lparr>e_move = ''e5'', e_piece = ''pawn'', e_phase = ''opening'', e_quality = ''strong'',
          e_explanation = ''No explanation available.''\<rparr>]"
  by code_simp

section \<open>The piece name\<close>

text \<open>
  Upper-casing the symbol of a piece of either colour gives a key of \<^verbatim>\<open>PIECE_NAMES\<close>,
  so the default of \<^verbatim>\<open>.get\<close> is never taken for a piece; the name is the English name
  of the piece type.
\<close>

lemma piece_name_of_eq:
  "piece_name_of b m =
     (case piece_at b (from_square m) of
        None \<Rightarrow> ''piece''
      | Some pc \<Rightarrow> english_name (piece_type pc))"
proof (cases "piece_at b (from_square m)")
  case None
  then show ?thesis by (simp add: piece_name_of_def)
next
  case (Some pc)
  obtain t c where pc: "pc = \<lparr>piece_type = t, color = c\<rparr>" by (cases pc) auto
  show ?thesis using Some pc
    by (cases t; cases c)
       (simp_all add: piece_name_of_def symbol_def upper_def upper_char_def PIECE_NAMES_def
          dict_get_def)
qed

text \<open>
  C9: for every request with a legal move, the entry the request appends carries as
  \<^verbatim>\<open>piece\<close> the English name of the piece standing on the from-square before the move,
  or the literal "piece" when the square is empty; the history of a successful response
  is the log with that entry as its last; and the request succeeds whenever the engine
  calls do, whatever stands on the from-square. A piece always has one of the six
  types.
\<close>

theorem piece_name_recorded:
  assumes "parse_fen R (fen st) = Some P"
    and "from_uci R (user_move st) = Some M"
    and "is_legal R P M"
    and "analyze_and_move R E B st w = (out, w')"
  shows "(recorded out \<longrightarrow>
            (\<exists>en. move_log w' = move_log w @ [en]
               \<and> e_piece en = (case piece_at P (from_square M) of
                                  None \<Rightarrow> ''piece''
                                | Some pc \<Rightarrow> english_name (piece_type pc))))
   \<and> (\<forall>p. out = Inr (Move_payload p) \<longrightarrow> r_history p = move_log w')
   \<and> (popen_uci E \<and> analyse E (push R P M) 100 \<noteq> None \<and> play E (push R P M) 500 \<noteq> None
        \<and> quit E \<longrightarrow> successful out)"
  using assms
  by (auto simp add: analyze_and_move_legal analyse_and_reply_eq recorded_def successful_def
        analyzed_move_def piece_name_of_eq
      split: if_splits option.splits)

theorem piece_name_recorded_witness:
  "\<exists>out w' en. analyze_and_move demo_rules (engine_with (Some (Cp (- 30))) (Some (mk_move 52 36))) (backend_says ''Solid.'')
        \<lparr>fen = start_fen, user_move = ''e2e4''\<rparr> initial_world = (out, w')
      \<and> successful out \<and> recorded out \<and> move_log w' = [en] \<and> e_piece en = ''pawn''"
proof -
  let ?st = "\<lparr>fen = start_fen, user_move = ''e2e4''\<rparr>"
  have d: "parse_fen demo_rules (fen ?st) = Some start_board"
    "from_uci demo_rules (user_move ?st) = Some (mk_move 12 28)"
    "is_legal demo_rules start_board (mk_move 12 28)"
    by (simp_all add: demo_e2e4)
  obtain out w' where r: "analyze_and_move demo_rules (engine_with (Some (Cp (- 30))) (Some (mk_move 52 36)))
      (backend_says ''Solid.'') ?st initial_world = (out, w')" by fastforce
  note t = piece_name_recorded [OF d r]
  from t have s: "successful out" by (simp add: engine_sel)
  then have rec: "recorded out"
    by (auto simp add: successful_def recorded_def split: sum.splits payload.splits)
  with t obtain en where "move_log w' = [en]" "e_piece en = ''pawn''"
    by (auto simp add: demo_piece white_def initial_world_def)
  with r s rec show ?thesis by blast
qed

section \<open>The engine's reply\<close>

text \<open>
  C10: for every request with a legal move on which the engine calls succeed, the
  response is the four-key dictionary; if the engine's reply holds no move, \<^verbatim>\<open>ai_move\<close>
  is the empty string and \<^verbatim>\<open>fen\<close> encodes the position after the user's move only; if
  it holds a move, \<^verbatim>\<open>fen\<close> encodes the position after both moves and \<^verbatim>\<open>ai_move\<close> is the
  reply in UCI encoding. The library's null move counts as no move.
\<close>

theorem engine_reply_applied:
  assumes "parse_fen R (fen st) = Some P"
    and "from_uci R (user_move st) = Some M"
    and "is_legal R P M"
    and "popen_uci E"
    and "analyse E (push R P M) 100 = Some i"
    and "play E (push R P M) 500 = Some res"
    and "quit E"
  shows "\<exists>p. fst (analyze_and_move R E B st w) = Inr (Move_payload p)
     \<and> (result_move res = None
          \<longrightarrow> r_ai_move p = [] \<and> r_fen p = fen_of R (push R P M))
     \<and> (\<forall>r. result_move res = Some r \<and> move_bool r
          \<longrightarrow> r_ai_move p = uci_of R r \<and> r_fen p = fen_of R (push R (push R P M) r))
     \<and> (\<forall>r. result_move res = Some r \<and> \<not> move_bool r
          \<longrightarrow> r_ai_move p = [] \<and> r_fen p = fen_of R (push R P M))"
  using assms
  by (auto simp add: analyze_and_move_legal analyse_and_reply_eq apply_reply_def)

theorem engine_reply_applied_witness:
  "(\<exists>p. fst (analyze_and_move demo_rules (engine_with (Some (Cp (- 30))) None) (backend_says ''Solid.'')
              \<lparr>fen = start_fen, user_move = ''e2e4''\<rparr> initial_world) = Inr (Move_payload p)
        \<and> r_ai_move p = []
        \<and> r_fen p = ''rnbqkbnr/pppppppp/8/8/4P3/8/PPPP1PPP/RNBQKBNR b KQkq - 0 1'')
   \<and> (\<exists>p. fst (analyze_and_move demo_rules (engine_with (Some (Cp (- 30))) (Some (mk_move 52 36)))
              (backend_says ''Solid.'') \<lparr>fen = start_fen, user_move = ''e2e4''\<rparr> initial_world)
            = Inr (Move_payload p)
        \<and> r_ai_move p = ''e7e5''
        \<and> r_fen p = ''rnbqkbnr/pppp1ppp/8/4p3/4P3/8/PPPP1PPP/RNBQKBNR w KQkq - 0 2'')"
proof -
  let ?st = "\<lparr>fen = start_fen, user_move = ''e2e4''\<rparr>"
  have d: "parse_fen demo_rules (fen ?st) = Some start_board"
    "from_uci demo_rules (user_move ?st) = Some (mk_move 12 28)"
    "is_legal demo_rules start_board (mk_move 12 28)"
    by (simp_all add: demo_e2e4)
  from engine_reply_applied [OF d, of "engine_with (Some (Cp (- 30))) None"
      "\<lparr>info_score = Some \<lparr>relative = Cp (- 30), pov_turn = Black\<rparr>\<rparr>" "\<lparr>result_move = None\<rparr>"
      "backend_says ''Solid.''" initial_world]
  have one: "\<exists>p. fst (analyze_and_move demo_rules (engine_with (Some (Cp (- 30))) None)
              (backend_says ''Solid.'') ?st initial_world) = Inr (Move_payload p)
        \<and> r_ai_move p = []
        \<and> r_fen p = ''rnbqkbnr/pppppppp/8/8/4P3/8/PPPP1PPP/RNBQKBNR b KQkq - 0 1''"
    by (simp add: engine_sel demo_rules_sel demo_fens demo_turns)
  from engine_reply_applied [OF d, of "engine_with (Some (Cp (- 30))) (Some (mk_move 52 36))"
      "\<lparr>info_score = Some \<lparr>relative = Cp (- 30), pov_turn = Black\<rparr>\<rparr>"
      "\<lparr>result_move = Some (mk_move 52 36)\<rparr>" "backend_says ''Solid.''" initial_world]
  have two: "\<exists>p. fst (analyze_and_move demo_rules (engine_with (Some (Cp (- 30))) (Some (mk_move 52 36)))
              (backend_says ''Solid.'') ?st initial_world) = Inr (Move_payload p)
        \<and> r_ai_move p = ''e7e5''
        \<and> r_fen p = ''rnbqkbnr/pppp1ppp/8/4p3/4P3/8/PPPP1PPP/RNBQKBNR w KQkq - 0 2''"
    by (simp add: engine_sel demo_rules_sel demo_fens demo_turns)
  from one two show ?thesis by simp
qed

section \<open>The log over the life of the process\<close>














end
